theory Spec2Isabelle
  imports Main "HOL-Library.Sublist" "HOL-Library.List_Lexorder" "HOL-Library.Char_ord"
    "HOL-Library.Multiset"
begin

section \<open>JavaScript numbers\<close>

text \<open>
  The actions and queries compute on JavaScript numbers (\<^verbatim>\<open>amount * 100\<close>,
  \<^verbatim>\<open>invoice.amount / 100\<close>, \<^verbatim>\<open>Number(query)\<close>), which are IEEE 754 binary64
  values.  A finite value is kept exactly, as \<open>Fin m e\<close> standing for \<open>m * 2 ^ e\<close>, in
  normal form: \<open>m\<close> is odd, or the value is \<open>Fin 0 0\<close>.  Every arithmetic result is the exact
  result rounded to 53 significant bits, ties to even, with gradual underflow below
  \<open>2 ^ - 1022\<close> and overflow to infinity from \<open>2 ^ 1024\<close>.  The sign of zero is not kept
  (no operation of this program divides by a zero or prints one).
\<close>

datatype js_number = NaN | PosInf | NegInf | Fin int int

function bit_length :: "int \<Rightarrow> int" where
  "bit_length k = (if k \<le> 0 then 0 else 1 + bit_length (k div 2))"
  by pat_completeness auto
termination
  by (relation "measure nat") auto

function norm_dyadic :: "int \<Rightarrow> int \<Rightarrow> js_number" where
  "norm_dyadic m e =
     (if m = 0 then Fin 0 0
      else if even m then norm_dyadic (m div 2) (e + 1)
      else Fin m e)"
  by pat_completeness auto
termination
  by (relation "measure (\<lambda>(m, e). nat \<bar>m\<bar>)") auto

definition round_half_even_div :: "int \<Rightarrow> int \<Rightarrow> int" where
  "round_half_even_div a b =
     (let f = a div b; r = a mod b
      in if 2 * r < b then f else if b < 2 * r then f + 1
         else if even f then f else f + 1)"

definition floor_log2_frac :: "int \<Rightarrow> int \<Rightarrow> int" where
  "floor_log2_frac p q =
     (let d = bit_length p - bit_length q
      in if q * 2 ^ nat d \<le> p * 2 ^ nat (- d) then d else d - 1)"

definition binary64_of_frac :: "int \<Rightarrow> int \<Rightarrow> js_number" where
  "binary64_of_frac p q =
     (if p = 0 then Fin 0 0
      else let a = \<bar>p\<bar>;
               e = max (floor_log2_frac a q - 52) (- 1074);
               m = round_half_even_div (a * 2 ^ nat (- e)) (q * 2 ^ nat e)
           in if 1024 < bit_length m + e
              then (if 0 < p then PosInf else NegInf)
              else norm_dyadic (sgn p * m) e)"

definition js_of_int :: "int \<Rightarrow> js_number" where
  "js_of_int i = binary64_of_frac i 1"

fun to_int :: "js_number \<Rightarrow> int option" where
  "to_int (Fin m e) = (if 0 \<le> e then Some (m * 2 ^ nat e) else None)"
| "to_int _ = None"

fun js_sgn :: "js_number \<Rightarrow> int" where
  "js_sgn (Fin m e) = sgn m"
| "js_sgn PosInf = 1"
| "js_sgn NegInf = - 1"
| "js_sgn NaN = 0"

fun js_mul :: "js_number \<Rightarrow> js_number \<Rightarrow> js_number" where
  "js_mul (Fin m1 e1) (Fin m2 e2) =
     binary64_of_frac (m1 * m2 * 2 ^ nat (e1 + e2)) (2 ^ nat (- (e1 + e2)))"
| "js_mul NaN _ = NaN"
| "js_mul _ NaN = NaN"
| "js_mul x y =
     (if js_sgn x * js_sgn y = 0 then NaN
      else if 0 < js_sgn x * js_sgn y then PosInf else NegInf)"


text \<open>\<^verbatim>\<open>x > y\<close> on numbers: false as soon as one side is \<^verbatim>\<open>NaN\<close>.\<close>

fun js_gt :: "js_number \<Rightarrow> js_number \<Rightarrow> bool" where
  "js_gt NaN _ = False"
| "js_gt _ NaN = False"
| "js_gt PosInf y = (y \<noteq> PosInf)"
| "js_gt NegInf _ = False"
| "js_gt (Fin m e) PosInf = False"
| "js_gt (Fin m e) NegInf = True"
| "js_gt (Fin m1 e1) (Fin m2 e2) = (m2 * 2 ^ nat (e2 - e1) < m1 * 2 ^ nat (e1 - e2))"

definition js_le :: "js_number \<Rightarrow> js_number \<Rightarrow> bool" where
  "js_le x y = (x \<noteq> NaN \<and> y \<noteq> NaN \<and> \<not> js_gt x y)"

definition isNaN :: "js_number \<Rightarrow> bool" where
  "isNaN x = (x = NaN)"


fun js_neg :: "js_number \<Rightarrow> js_number" where
  "js_neg (Fin m e) = Fin (- m) e"
| "js_neg PosInf = NegInf"
| "js_neg NegInf = PosInf"
| "js_neg NaN = NaN"

section \<open>Strings\<close>

text \<open>
  A string is a list of code units; \<^typ>\<open>char\<close> covers the code units \<open>0\<close> to \<open>255\<close>.
  \<^verbatim>\<open>String.prototype.includes\<close> is the substring test; the ORM's \<^verbatim>\<open>contains\<close> with
  \<^verbatim>\<open>mode: "insensitive"\<close> is the same test after folding the letters \<open>A\<close> to \<open>Z\<close>.
\<close>

fun js_includes :: "string \<Rightarrow> string \<Rightarrow> bool" where
  "js_includes [] needle = (needle = [])"
| "js_includes (c # cs) needle = (prefix needle (c # cs) \<or> js_includes cs needle)"

definition to_lower :: "char \<Rightarrow> char" where
  "to_lower c =
     (if CHR ''A'' \<le> c \<and> c \<le> CHR ''Z'' then char_of (of_char c + (32 :: int)) else c)"

definition contains_insensitive :: "string \<Rightarrow> string \<Rightarrow> bool" where
  "contains_insensitive field q = js_includes (map to_lower field) (map to_lower q)"

text \<open>\<^verbatim>\<open>s.split("T")[0]\<close>: the part of \<open>s\<close> before its first \<open>T\<close>, all of \<open>s\<close> without one.\<close>

definition split_T_first :: "string \<Rightarrow> string" where
  "split_T_first s = takeWhile (\<lambda>c. c \<noteq> CHR ''T'') s"

subsection \<open>\<^verbatim>\<open>Number(string)\<close>\<close>

text \<open>
  The conversion of a string to a number: white space is trimmed, the empty string is \<open>0\<close>,
  then come the literals \<^verbatim>\<open>0x\<close>, \<^verbatim>\<open>0o\<close>, \<^verbatim>\<open>0b\<close> (unsigned), \<^verbatim>\<open>Infinity\<close> and the
  decimal literals with an optional sign, fraction and exponent.  Everything else is \<^verbatim>\<open>NaN\<close>.
\<close>

definition is_ws :: "char \<Rightarrow> bool" where
  "is_ws c = (c \<in> {CHR 0x09, CHR 0x0A, CHR 0x0B, CHR 0x0C, CHR 0x0D, CHR 0x20, CHR 0xA0})"

definition trim :: "string \<Rightarrow> string" where
  "trim s = rev (dropWhile is_ws (rev (dropWhile is_ws s)))"

definition is_digit :: "char \<Rightarrow> bool" where
  "is_digit c = (CHR ''0'' \<le> c \<and> c \<le> CHR ''9'')"

definition is_hex_digit :: "char \<Rightarrow> bool" where
  "is_hex_digit c =
     (is_digit c \<or> (CHR ''a'' \<le> c \<and> c \<le> CHR ''f'') \<or> (CHR ''A'' \<le> c \<and> c \<le> CHR ''F''))"

definition is_octal_digit :: "char \<Rightarrow> bool" where
  "is_octal_digit c = (CHR ''0'' \<le> c \<and> c \<le> CHR ''7'')"

definition is_binary_digit :: "char \<Rightarrow> bool" where
  "is_binary_digit c = (c = CHR ''0'' \<or> c = CHR ''1'')"

definition digit_of :: "char \<Rightarrow> int" where
  "digit_of c =
     (if is_digit c then of_char c - 48
      else if CHR ''a'' \<le> c then of_char c - 87
      else of_char c - 55)"

definition digits_val :: "int \<Rightarrow> string \<Rightarrow> int" where
  "digits_val b ds = foldl (\<lambda>a c. a * b + digit_of c) 0 ds"

definition parse_radix :: "int \<Rightarrow> (char \<Rightarrow> bool) \<Rightarrow> string \<Rightarrow> js_number" where
  "parse_radix b ok ds =
     (if ds \<noteq> [] \<and> list_all ok ds then js_of_int (digits_val b ds) else NaN)"

text \<open>The exponent part: absent (\<open>0\<close>), or \<^verbatim>\<open>e\<close>, an optional sign and at least one digit.\<close>

definition parse_exponent :: "string \<Rightarrow> int option" where
  "parse_exponent s =
     (case s of
        [] \<Rightarrow> Some 0
      | c # r \<Rightarrow>
          if c = CHR ''e'' \<or> c = CHR ''E'' then
            (let neg = (case r of d # _ \<Rightarrow> d = CHR ''-'' | [] \<Rightarrow> False);
                 ds = (case r of d # r' \<Rightarrow> if d = CHR ''-'' \<or> d = CHR ''+'' then r' else r
                       | [] \<Rightarrow> [])
             in if ds \<noteq> [] \<and> list_all is_digit ds
                then Some ((if neg then - 1 else 1) * digits_val 10 ds) else None)
          else None)"

definition parse_unsigned_decimal :: "string \<Rightarrow> js_number" where
  "parse_unsigned_decimal s =
     (if s = ''Infinity'' then PosInf
      else let ip = takeWhile is_digit s;
               r1 = dropWhile is_digit s;
               has_dot = (case r1 of c # _ \<Rightarrow> c = CHR ''.'' | [] \<Rightarrow> False);
               r2 = (if has_dot then tl r1 else r1);
               fp = (if has_dot then takeWhile is_digit r2 else []);
               r3 = (if has_dot then dropWhile is_digit r2 else r2)
           in if ip = [] \<and> fp = [] then NaN
              else case parse_exponent r3 of
                     None \<Rightarrow> NaN
                   | Some ex \<Rightarrow>
                       (let k = ex - int (length fp)
                        in binary64_of_frac (digits_val 10 (ip @ fp) * 10 ^ nat k)
                             (10 ^ nat (- k))))"

definition Number_of_string :: "string \<Rightarrow> js_number" where
  "Number_of_string s =
     (let t = trim s
      in if t = [] then Fin 0 0
         else if prefix ''0x'' t \<or> prefix ''0X'' t then parse_radix 16 is_hex_digit (drop 2 t)
         else if prefix ''0o'' t \<or> prefix ''0O'' t then parse_radix 8 is_octal_digit (drop 2 t)
         else if prefix ''0b'' t \<or> prefix ''0B'' t then parse_radix 2 is_binary_digit (drop 2 t)
         else if hd t = CHR ''-'' then js_neg (parse_unsigned_decimal (tl t))
         else if hd t = CHR ''+'' then parse_unsigned_decimal (tl t)
         else parse_unsigned_decimal t)"

text \<open>\<^verbatim>\<open>Number(v)\<close> for a form value: \<^verbatim>\<open>null\<close> converts to \<open>0\<close>.\<close>

definition Number_of_value :: "string option \<Rightarrow> js_number" where
  "Number_of_value v = (case v of None \<Rightarrow> Fin 0 0 | Some s \<Rightarrow> Number_of_string s)"


section \<open>The relational store behind the ORM\<close>

text \<open>
  Modelled from the spec: the schema of the tables, whose declaration (the ORM's schema
  file) is not among the sources.  The specification's data model gives Customer (id, name,
  email, image reference), Invoice (id, customer id, amount as an integer in minor units,
  status, date as a calendar date string) and Revenue (month, revenue); the code agrees, as
  it filters \<open>status\<close> and \<open>date\<close> with string conditions and reads and writes these
  fields.  Rows are kept in the order in which the store lists them.
\<close>

record customer =
  cust_id :: string
  cust_name :: string
  cust_email :: string
  cust_image_url :: string

record invoice =
  inv_id :: string
  inv_customer_id :: string
  inv_amount :: int
  inv_status :: string
  inv_date :: string

record revenue_row =
  rev_month :: string
  rev_revenue :: int

record store =
  customers :: "customer list"
  invoices :: "invoice list"
  revenues :: "revenue_row list"

datatype orm_error = ValidationError | RecordNotFound | ForeignKeyViolation
  | UniqueViolation | InconsistentResult

datatype js_error = Error string

fun message_of :: "js_error \<Rightarrow> string" where
  "message_of (Error m) = m"

definition find_customer :: "store \<Rightarrow> string \<Rightarrow> customer option" where
  "find_customer st cid = find (\<lambda>c. cust_id c = cid) (customers st)"

definition find_invoice :: "store \<Rightarrow> string \<Rightarrow> invoice option" where
  "find_invoice st i = find (\<lambda>r. inv_id r = i) (invoices st)"

text \<open>
  Referential integrity: every invoice has its customer.  The store enforces it on every
  write (a write that would break it is refused), so every state the program meets has it.
\<close>

definition store_integrity :: "store \<Rightarrow> bool" where
  "store_integrity st =
     list_all (\<lambda>r. find_customer st (inv_customer_id r) \<noteq> None) (invoices st)"

subsection \<open>Conditions of a \<^verbatim>\<open>where\<close> clause\<close>

text \<open>
  The ORM is a collaborator outside the sources; its operations are modelled by their
  contract.  The two invoice queries pass \<^verbatim>\<open>where: { OR: [...] }\<close> with five branches.  A
  condition whose value is \<^verbatim>\<open>undefined\<close> (here \<open>Amount_equals None\<close>) is, for the ORM, a
  condition that was not given: the branch places no filter and leaves the \<^verbatim>\<open>OR\<close> list.
  A number given for \<^verbatim>\<open>amount\<close> is compared by numeric equality, so that a number which is
  no integer equals no amount.  \<^verbatim>\<open>contains\<close> is the substring test.
\<close>

datatype string_filter = Contains_insensitive string | Equals string

datatype invoice_condition =
    Customer_name string_filter
  | Customer_email string_filter
  | Amount_equals "js_number option"
  | Date_is string_filter
  | Status_is string_filter

fun string_filter_holds :: "string_filter \<Rightarrow> string \<Rightarrow> bool" where
  "string_filter_holds (Contains_insensitive q) v = contains_insensitive v q"
| "string_filter_holds (Equals q) v = (v = q)"

fun condition_given :: "invoice_condition \<Rightarrow> bool" where
  "condition_given (Amount_equals None) = False"
| "condition_given _ = True"

fun condition_holds :: "store \<Rightarrow> invoice \<Rightarrow> invoice_condition \<Rightarrow> bool" where
  "condition_holds st r (Customer_name f) =
     (case find_customer st (inv_customer_id r) of
        None \<Rightarrow> False | Some c \<Rightarrow> string_filter_holds f (cust_name c))"
| "condition_holds st r (Customer_email f) =
     (case find_customer st (inv_customer_id r) of
        None \<Rightarrow> False | Some c \<Rightarrow> string_filter_holds f (cust_email c))"
| "condition_holds st r (Amount_equals n) =
     (case n of None \<Rightarrow> False | Some v \<Rightarrow> to_int v = Some (inv_amount r))"
| "condition_holds st r (Date_is f) = string_filter_holds f (inv_date r)"
| "condition_holds st r (Status_is f) = string_filter_holds f (inv_status r)"

definition where_OR :: "store \<Rightarrow> invoice_condition list \<Rightarrow> invoice \<Rightarrow> bool" where
  "where_OR st branches r = list_ex (condition_holds st r) (filter condition_given branches)"

subsection \<open>Listing, counting and lookup\<close>





text \<open>\<^verbatim>\<open>prisma.invoice.count({ where: { OR } })\<close>.\<close>

definition invoice_count :: "store \<Rightarrow> invoice_condition list \<Rightarrow> orm_error + nat" where
  "invoice_count st branches = Inr (length (filter (where_OR st branches) (invoices st)))"

text \<open>\<^verbatim>\<open>prisma.revenue.findMany()\<close>: no condition, no ordering.\<close>

definition revenue_findMany :: "store \<Rightarrow> revenue_row list" where
  "revenue_findMany st = revenues st"

subsection \<open>Writes\<close>

text \<open>
  \<^verbatim>\<open>create\<close> appends a row under the id the store generates; \<^verbatim>\<open>update\<close> and
  \<^verbatim>\<open>delete\<close> raise when no row has the id.  The amount handed over must be an integer, the
  customer must exist.
\<close>

definition invoice_create ::
  "store \<Rightarrow> string \<Rightarrow> string \<Rightarrow> js_number \<Rightarrow> string \<Rightarrow> string \<Rightarrow> orm_error + store" where
  "invoice_create st new_id cid amt status date =
     (case to_int amt of
        None \<Rightarrow> Inl ValidationError
      | Some a \<Rightarrow>
          if find_customer st cid = None then Inl ForeignKeyViolation
          else if find_invoice st new_id \<noteq> None then Inl UniqueViolation
          else Inr (st\<lparr>invoices := invoices st @
                 [\<lparr>inv_id = new_id, inv_customer_id = cid, inv_amount = a,
                   inv_status = status, inv_date = date\<rparr>]\<rparr>))"

definition invoice_update ::
  "store \<Rightarrow> string \<Rightarrow> string \<Rightarrow> js_number \<Rightarrow> string \<Rightarrow> orm_error + store" where
  "invoice_update st i cid amt status =
     (case to_int amt of
        None \<Rightarrow> Inl ValidationError
      | Some a \<Rightarrow>
          if find_invoice st i = None then Inl RecordNotFound
          else if find_customer st cid = None then Inl ForeignKeyViolation
          else Inr (st\<lparr>invoices :=
                 map (\<lambda>r. if inv_id r = i
                           then r\<lparr>inv_customer_id := cid, inv_amount := a, inv_status := status\<rparr>
                           else r) (invoices st)\<rparr>))"

definition invoice_delete :: "store \<Rightarrow> string \<Rightarrow> orm_error + store" where
  "invoice_delete st i =
     (if find_invoice st i = None then Inl RecordNotFound
      else Inr (st\<lparr>invoices := filter (\<lambda>r. inv_id r \<noteq> i) (invoices st)\<rparr>))"


section \<open>Query module\<close>

text \<open>
  The read functions over a store state.  Faults of the connection are outside the model:
  the errors that remain are those the ORM raises on its arguments and on the rows, which
  the functions catch and replace by their own \<^verbatim>\<open>Error\<close>.  The cache bypass
  (\<^verbatim>\<open>noStore\<close>) and the delay in \<^verbatim>\<open>fetchRevenue\<close> change no result.
\<close>

definition fetchRevenue :: "store \<Rightarrow> revenue_row list" where
  "fetchRevenue st = (let revenueData = revenue_findMany st in revenueData)"

definition ITEMS_PER_PAGE :: nat where
  "ITEMS_PER_PAGE = 6"

text \<open>The five branches both invoice queries build from the query string.\<close>

definition invoice_query_branches :: "string \<Rightarrow> invoice_condition list" where
  "invoice_query_branches query =
     [Customer_name (Contains_insensitive query),
      Customer_email (Contains_insensitive query),
      Amount_equals (if isNaN (Number_of_string query) then None
                     else Some (Number_of_string query)),
      Date_is (Equals query),
      Status_is (Contains_insensitive query)]"




text \<open>
  \<^verbatim>\<open>Math.ceil(count / ITEMS_PER_PAGE)\<close> on a row count: the quotient of two such integers,
  rounded to binary64, is an integer exactly when the division is exact, so the result is
  the integer ceiling.
\<close>

definition Math_ceil_div :: "nat \<Rightarrow> nat \<Rightarrow> nat" where
  "Math_ceil_div c n = (c + n - 1) div n"

definition fetchInvoicesPages :: "store \<Rightarrow> string \<Rightarrow> js_error + nat" where
  "fetchInvoicesPages st query =
     (case invoice_count st (invoice_query_branches query) of
        Inl _ \<Rightarrow> Inl (Error ''Failed to fetch total number of invoices.'')
      | Inr cnt \<Rightarrow> (let totalPages = Math_ceil_div cnt ITEMS_PER_PAGE in Inr totalPages))"



section \<open>Validation schema\<close>

text \<open>
  \<^verbatim>\<open>CreateInvoice\<close> and \<^verbatim>\<open>UpdateInvoice\<close> are the same schema: \<^verbatim>\<open>InvoiceSchema\<close> without
  \<^verbatim>\<open>id\<close> and \<^verbatim>\<open>date\<close>.  A form value is a string, or \<^verbatim>\<open>null\<close> (\<open>None\<close>) for a name
  the form does not carry.  An issue carries the message the schema gives for it, or the
  validation library's own message for the issue code: \<^verbatim>\<open>invalid_type_error\<close> is the
  message of the code \<^verbatim>\<open>invalid_type\<close> only.
\<close>

datatype zod_issue_code = invalid_type | invalid_enum_value | too_small

datatype zod_message = Custom string | Default zod_issue_code

record validated_fields =
  data_customer_id :: string
  data_amount :: js_number
  data_status :: string

record field_errors =
  customer_id_errors :: "zod_message list"
  amount_errors :: "zod_message list"
  status_errors :: "zod_message list"

definition parse_customer_id :: "string option \<Rightarrow> zod_message list + string" where
  "parse_customer_id v =
     (case v of None \<Rightarrow> Inl [Custom ''Please select a customer.''] | Some s \<Rightarrow> Inr s)"

definition parse_amount :: "string option \<Rightarrow> zod_message list + js_number" where
  "parse_amount v =
     (let n = Number_of_value v
      in if isNaN n then Inl [Default invalid_type]
         else if js_le n (Fin 0 0) then Inl [Custom ''Please enter an amount greater than $0.'']
         else Inr n)"

definition parse_status :: "string option \<Rightarrow> zod_message list + string" where
  "parse_status v =
     (case v of
        None \<Rightarrow> Inl [Custom ''Please select an invoice status.'']
      | Some s \<Rightarrow> if s = ''pending'' \<or> s = ''paid'' then Inr s
                  else Inl [Default invalid_enum_value])"

definition issues_of :: "zod_message list + 'a \<Rightarrow> zod_message list" where
  "issues_of r = (case r of Inl ms \<Rightarrow> ms | Inr _ \<Rightarrow> [])"

text \<open>
  \<^verbatim>\<open>safeParse\<close> checks the three fields and reports the issues of all of them; the error
  side is \<^verbatim>\<open>error.flatten().fieldErrors\<close>, where a field without issue has no entry (\<open>[]\<close>).
\<close>

definition safeParse ::
  "string option \<Rightarrow> string option \<Rightarrow> string option \<Rightarrow> field_errors + validated_fields" where
  "safeParse customer_id amount status =
     (case (parse_customer_id customer_id, parse_amount amount, parse_status status) of
        (Inr c, Inr a, Inr s) \<Rightarrow>
          Inr \<lparr>data_customer_id = c, data_amount = a, data_status = s\<rparr>
      | (c, a, s) \<Rightarrow>
          Inl \<lparr>customer_id_errors = issues_of c, amount_errors = issues_of a,
                status_errors = issues_of s\<rparr>)"

section \<open>Mutation actions\<close>

text \<open>
  An action runs on the store and the list of paths handed to \<^verbatim>\<open>revalidatePath\<close>, and
  ends by returning a value, by the redirect, or by throwing.  The clock and the id the
  store generates for a new row come from outside.  Form data is the list of its entries;
  \<^verbatim>\<open>get\<close> yields the first value under a name.
\<close>

record world =
  db :: store
  revalidated :: "string list"

record environment =
  now_iso :: string
  generated_id :: string

type_synonym form_data = "(string \<times> string) list"

definition formData_get :: "form_data \<Rightarrow> string \<Rightarrow> string option" where
  "formData_get fd name = map_of fd name"

record action_state =
  errors :: "field_errors option"
  message :: "string option"

datatype 'a completion = Returned 'a | Redirected string | Thrown js_error

definition revalidatePath :: "string \<Rightarrow> world \<Rightarrow> world" where
  "revalidatePath path w = w\<lparr>revalidated := revalidated w @ [path]\<rparr>"

definition createInvoice ::
  "environment \<Rightarrow> action_state \<Rightarrow> form_data \<Rightarrow> world \<Rightarrow> action_state completion \<times> world" where
  "createInvoice env prevState formData w =
     (case safeParse (formData_get formData ''customer_id'') (formData_get formData ''amount'')
             (formData_get formData ''status'') of
        Inl fe \<Rightarrow>
          (Returned \<lparr>errors = Some fe,
                     message = Some ''Missing Fields. Failed to Create Invoice.''\<rparr>, w)
      | Inr d \<Rightarrow>
          (let amountInCents = js_mul (data_amount d) (js_of_int 100);
               date = split_T_first (now_iso env)
           in case invoice_create (db w) (generated_id env) (data_customer_id d) amountInCents
                     (data_status d) date of
                Inl _ \<Rightarrow>
                  (Returned \<lparr>errors = None,
                             message = Some ''Database Error: Failed to Create Invoice.''\<rparr>, w)
              | Inr st' \<Rightarrow>
                  (Redirected ''/dashboard/invoices'',
                   revalidatePath ''/dashboard/invoices'' (w\<lparr>db := st'\<rparr>))))"

definition updateInvoice ::
  "string \<Rightarrow> action_state \<Rightarrow> form_data \<Rightarrow> world \<Rightarrow> action_state completion \<times> world" where
  "updateInvoice i prevState formData w =
     (case safeParse (formData_get formData ''customer_id'') (formData_get formData ''amount'')
             (formData_get formData ''status'') of
        Inl fe \<Rightarrow>
          (Returned \<lparr>errors = Some fe,
                     message = Some ''Missing Fields. Failed to Update Invoice.''\<rparr>, w)
      | Inr d \<Rightarrow>
          (let amountInCents = js_mul (data_amount d) (js_of_int 100)
           in case invoice_update (db w) i (data_customer_id d) amountInCents (data_status d) of
                Inl _ \<Rightarrow>
                  (Returned \<lparr>errors = None,
                             message = Some ''Database Error: Failed to Update Invoice.''\<rparr>, w)
              | Inr st' \<Rightarrow>
                  (Redirected ''/dashboard/invoices'',
                   revalidatePath ''/dashboard/invoices'' (w\<lparr>db := st'\<rparr>))))"

text \<open>\<^verbatim>\<open>deleteInvoice\<close> returns nothing (\<open>None\<close>) after a deletion, the message otherwise.\<close>

definition deleteInvoice :: "string \<Rightarrow> world \<Rightarrow> action_state option completion \<times> world" where
  "deleteInvoice i w =
     (case invoice_delete (db w) i of
        Inr st' \<Rightarrow> (Returned None, revalidatePath ''/dashboard/invoices'' (w\<lparr>db := st'\<rparr>))
      | Inl _ \<Rightarrow>
          (Returned (Some \<lparr>errors = None,
                           message = Some ''Database Error: Failed to Delete Invoice.''\<rparr>), w))"

subsection \<open>Authentication\<close>

text \<open>
  \<^verbatim>\<open>signIn\<close> is the identity-verification collaborator: it resolves, or rejects with an
  error.  \<^verbatim>\<open>Object.fromEntries\<close> keeps, for each name, the last value of the form.
\<close>

datatype sign_in_result = Resolved | Rejected js_error

definition Object_fromEntries :: "form_data \<Rightarrow> (string \<rightharpoonup> string)" where
  "Object_fromEntries fd = map_of (rev fd)"

definition authenticate ::
  "(string \<Rightarrow> (string \<rightharpoonup> string) \<Rightarrow> sign_in_result) \<Rightarrow> string option \<Rightarrow> form_data
     \<Rightarrow> string option completion" where
  "authenticate signIn prevState formData =
     (case signIn ''credentials'' (Object_fromEntries formData) of
        Resolved \<Rightarrow> Returned None
      | Rejected error \<Rightarrow>
          if js_includes (message_of error) ''CredentialsSignin''
          then Returned (Some ''CredentialSignin'')
          else Thrown error)"


section \<open>The specification's wording\<close>


text \<open>
  Ordered by month can be read on the month strings or on the calendar; this is the place
  of a three-letter month name in the year (\<open>0\<close> for any other string).
\<close>

definition calendar_position :: "string \<Rightarrow> nat" where
  "calendar_position m =
     (case find (\<lambda>p. fst p = m)
        (zip [''Jan'', ''Feb'', ''Mar'', ''Apr'', ''May'', ''Jun'', ''Jul'', ''Aug'', ''Sep'',
              ''Oct'', ''Nov'', ''Dec''] [1 ..< 13]) of
        None \<Rightarrow> 0 | Some p \<Rightarrow> snd p)"

section \<open>Sample data\<close>

text \<open>A small store, a world and an environment on which the properties are run.\<close>

definition sample_store :: store where
  "sample_store =
     \<lparr>customers =
        [\<lparr>cust_id = ''c1'', cust_name = ''Ada Lovelace'', cust_email = ''ada@example.com'',
          cust_image_url = ''/customers/ada.png''\<rparr>,
         \<lparr>cust_id = ''c2'', cust_name = ''Bob Stone'', cust_email = ''bob@example.com'',
          cust_image_url = ''/customers/bob.png''\<rparr>],
      invoices =
        [\<lparr>inv_id = ''i1'', inv_customer_id = ''c1'', inv_amount = 1500,
          inv_status = ''pending'', inv_date = ''2024-01-05''\<rparr>,
         \<lparr>inv_id = ''i2'', inv_customer_id = ''c2'', inv_amount = 30,
          inv_status = ''paid'', inv_date = ''2024-03-01''\<rparr>,
         \<lparr>inv_id = ''i3'', inv_customer_id = ''c1'', inv_amount = 2000,
          inv_status = ''paid'', inv_date = ''2024-02-10''\<rparr>,
         \<lparr>inv_id = ''i4'', inv_customer_id = ''c2'', inv_amount = 750,
          inv_status = ''pending'', inv_date = ''2024-03-01''\<rparr>,
         \<lparr>inv_id = ''i5'', inv_customer_id = ''c1'', inv_amount = 120,
          inv_status = ''pending'', inv_date = ''2023-12-24''\<rparr>,
         \<lparr>inv_id = ''i6'', inv_customer_id = ''c2'', inv_amount = 1999,
          inv_status = ''paid'', inv_date = ''2024-01-05''\<rparr>,
         \<lparr>inv_id = ''i7'', inv_customer_id = ''c1'', inv_amount = 4300,
          inv_status = ''pending'', inv_date = ''2024-02-28''\<rparr>],
      revenues =
        [\<lparr>rev_month = ''Feb'', rev_revenue = 1800\<rparr>,
         \<lparr>rev_month = ''Mar'', rev_revenue = 2200\<rparr>,
         \<lparr>rev_month = ''Jan'', rev_revenue = 2000\<rparr>]\<rparr>"

definition sample_world :: world where
  "sample_world = \<lparr>db = sample_store, revalidated = []\<rparr>"

definition sample_environment :: environment where
  "sample_environment = \<lparr>now_iso = ''2024-05-01T09:30:00.000Z'', generated_id = ''i8''\<rparr>"

section \<open>Properties\<close>

subsection \<open>The actions keep referential integrity\<close>

lemma find_customer_invoices_update:
  "find_customer (st\<lparr>invoices := rs\<rparr>) cid = find_customer st cid"
  by (simp add: find_customer_def)

lemma invoice_create_integrity:
  assumes "store_integrity st" and "invoice_create st new_id cid amt status date = Inr st'"
  shows "store_integrity st'"
  using assms
  by (auto simp: invoice_create_def store_integrity_def list_all_iff
      find_customer_invoices_update split: option.splits if_splits)

lemma invoice_update_integrity:
  assumes "store_integrity st" and "invoice_update st i cid amt status = Inr st'"
  shows "store_integrity st'"
  using assms
  by (auto simp: invoice_update_def store_integrity_def list_all_iff
      find_customer_invoices_update split: option.splits if_splits)

lemma invoice_delete_integrity:
  assumes "store_integrity st" and "invoice_delete st i = Inr st'"
  shows "store_integrity st'"
  using assms
  by (auto simp: invoice_delete_def store_integrity_def list_all_iff
      find_customer_invoices_update split: if_splits)

lemma createInvoice_keeps_integrity:
  assumes "store_integrity (db w)"
  shows "store_integrity (db (snd (createInvoice env prev fd w)))"
proof (cases "safeParse (formData_get fd ''customer_id'') (formData_get fd ''amount'')
                (formData_get fd ''status'')")
  case (Inl fe)
  with assms show ?thesis by (simp add: createInvoice_def)
next
  case (Inr d)
  show ?thesis
  proof (cases "invoice_create (db w) (generated_id env) (data_customer_id d)
                  (js_mul (data_amount d) (js_of_int 100)) (data_status d)
                  (split_T_first (now_iso env))")
    case (Inl e)
    with Inr assms show ?thesis by (simp add: createInvoice_def Let_def)
  next
    case created: (Inr st')
    from invoice_create_integrity [OF assms created] have "store_integrity st'" .
    with Inr created show ?thesis by (simp add: createInvoice_def Let_def revalidatePath_def)
  qed
qed

lemma updateInvoice_keeps_integrity:
  assumes "store_integrity (db w)"
  shows "store_integrity (db (snd (updateInvoice i prev fd w)))"
proof (cases "safeParse (formData_get fd ''customer_id'') (formData_get fd ''amount'')
                (formData_get fd ''status'')")
  case (Inl fe)
  with assms show ?thesis by (simp add: updateInvoice_def)
next
  case (Inr d)
  show ?thesis
  proof (cases "invoice_update (db w) i (data_customer_id d)
                  (js_mul (data_amount d) (js_of_int 100)) (data_status d)")
    case (Inl e)
    with Inr assms show ?thesis by (simp add: updateInvoice_def Let_def)
  next
    case updated: (Inr st')
    from invoice_update_integrity [OF assms updated] have "store_integrity st'" .
    with Inr updated show ?thesis by (simp add: updateInvoice_def Let_def revalidatePath_def)
  qed
qed

lemma deleteInvoice_keeps_integrity:
  assumes "store_integrity (db w)"
  shows "store_integrity (db (snd (deleteInvoice i w)))"
proof (cases "invoice_delete (db w) i")
  case (Inl e)
  with assms show ?thesis by (simp add: deleteInvoice_def)
next
  case (Inr st')
  from invoice_delete_integrity [OF assms Inr] have "store_integrity st'" .
  with Inr show ?thesis by (simp add: deleteInvoice_def revalidatePath_def)
qed

subsection \<open>Queries and actions\<close>

lemma find_invoice_absent:
  "i \<notin> inv_id ` set (invoices st) \<Longrightarrow> find_invoice st i = None"
  by (auto simp: find_invoice_def find_None_iff)

text \<open>
  Claim C5.  For an id that no row of the invoice table has, \<^verbatim>\<open>deleteInvoice\<close> returns
  the value \<^verbatim>\<open>{ message: "Database Error: Failed to Delete Invoice." }\<close>: it returns and does
  not throw, the store is the one before the call, and no path was handed to
  \<^verbatim>\<open>revalidatePath\<close>.
\<close>

theorem deleteInvoice_absent_id:
  assumes "i \<notin> inv_id ` set (invoices (db w))"
  shows "deleteInvoice i w =
           (Returned (Some \<lparr>errors = None,
                            message = Some ''Database Error: Failed to Delete Invoice.''\<rparr>), w)"
  using find_invoice_absent [OF assms] by (simp add: deleteInvoice_def invoice_delete_def)

theorem deleteInvoice_absent_id_witness:
  "''i9'' \<notin> inv_id ` set (invoices (db sample_world)) \<and>
   deleteInvoice ''i9'' sample_world =
     (Returned (Some \<lparr>errors = None,
                      message = Some ''Database Error: Failed to Delete Invoice.''\<rparr>),
      sample_world)"
proof -
  have absent: "''i9'' \<notin> inv_id ` set (invoices (db sample_world))"
    by (simp add: sample_world_def sample_store_def)
  from absent deleteInvoice_absent_id [OF absent] show ?thesis by simp
qed

text \<open>
  Claim C6.  When the collaborator rejects with an error whose message includes
  \<^verbatim>\<open>CredentialsSignin\<close>, \<^verbatim>\<open>authenticate\<close> returns the string \<^verbatim>\<open>"CredentialSignin"\<close>;
  when it rejects with any other error, \<^verbatim>\<open>authenticate\<close> throws that same error.
\<close>

theorem authenticate_outcomes:
  assumes "signIn ''credentials'' (Object_fromEntries fd) = Rejected e"
  shows "(js_includes (message_of e) ''CredentialsSignin'' \<longrightarrow>
            authenticate signIn prev fd = Returned (Some ''CredentialSignin'')) \<and>
         (\<not> js_includes (message_of e) ''CredentialsSignin'' \<longrightarrow>
            authenticate signIn prev fd = Thrown e)"
  using assms by (simp add: authenticate_def)

theorem authenticate_outcomes_witness:
  "authenticate (\<lambda>provider credentials. Rejected (Error ''CredentialsSignin: no such user''))
     None [(''email'', ''ada@example.com''), (''password'', ''x'')]
     = Returned (Some ''CredentialSignin'') \<and>
   authenticate (\<lambda>provider credentials. Rejected (Error ''NEXT_REDIRECT''))
     None [(''email'', ''ada@example.com''), (''password'', ''x'')]
     = Thrown (Error ''NEXT_REDIRECT'')"
proof -
  have a: "js_includes (message_of (Error ''CredentialsSignin: no such user'')) ''CredentialsSignin''"
    by simp
  have b: "\<not> js_includes (message_of (Error ''NEXT_REDIRECT'')) ''CredentialsSignin''"
    by simp
  show ?thesis
    using authenticate_outcomes
        [of "\<lambda>provider credentials. Rejected (Error ''CredentialsSignin: no such user'')"
            "[(''email'', ''ada@example.com''), (''password'', ''x'')]"
            "Error ''CredentialsSignin: no such user''" None]
      authenticate_outcomes
        [of "\<lambda>provider credentials. Rejected (Error ''NEXT_REDIRECT'')"
            "[(''email'', ''ada@example.com''), (''password'', ''x'')]"
            "Error ''NEXT_REDIRECT''" None]
      a b
    by blast
qed

text \<open>
  Claim C7 says that \<^verbatim>\<open>fetchRevenue\<close> returns the records ordered by month.  On the sample
  store, whose revenue table lists February, March, January, the result is in that same
  order: ascending or descending, by the month string or by the calendar, it is not ordered.
\<close>

theorem fetchRevenue_unordered_counterexample:
  "map rev_month (fetchRevenue sample_store) = [''Feb'', ''Mar'', ''Jan''] \<and>
   \<not> sorted (map rev_month (fetchRevenue sample_store)) \<and>
   \<not> sorted (rev (map rev_month (fetchRevenue sample_store))) \<and>
   \<not> sorted (map calendar_position (map rev_month (fetchRevenue sample_store))) \<and>
   \<not> sorted (rev (map calendar_position (map rev_month (fetchRevenue sample_store))))"
  by code_simp

text \<open>
  Claim C7, amended.  For every store state, \<^verbatim>\<open>fetchRevenue\<close> returns all records of the
  revenue table in the order in which the store lists them; it orders nothing.
\<close>

theorem fetchRevenue_store_order:
  "fetchRevenue st = revenues st"
  by (simp add: fetchRevenue_def revenue_findMany_def)

text \<open>
  Claim C9.  For a query whose filter the store counts zero invoices for,
  \<^verbatim>\<open>fetchInvoicesPages\<close> returns \<open>0\<close>: there is no minimum of one page.
\<close>

theorem fetchInvoicesPages_zero:
  assumes "invoice_count st (invoice_query_branches q) = Inr 0"
  shows "fetchInvoicesPages st q = Inr 0"
  using assms by (simp add: fetchInvoicesPages_def Math_ceil_div_def ITEMS_PER_PAGE_def)

theorem fetchInvoicesPages_zero_witness:
  "invoice_count sample_store (invoice_query_branches ''zzz'') = Inr 0 \<and>
   fetchInvoicesPages sample_store ''zzz'' = Inr 0"
proof -
  have none: "invoice_count sample_store (invoice_query_branches ''zzz'') = Inr 0"
    by code_simp
  from none fetchInvoicesPages_zero [OF none] show ?thesis by simp
qed






























lemma createInvoice_reads_three_fields:
  assumes "formData_get fd1 ''customer_id'' = formData_get fd2 ''customer_id''"
    and "formData_get fd1 ''amount'' = formData_get fd2 ''amount''"
    and "formData_get fd1 ''status'' = formData_get fd2 ''status''"
  shows "createInvoice env prev1 fd1 w = createInvoice env prev2 fd2 w"
  by (simp add: createInvoice_def assms)

lemma invoice_create_Inr:
  assumes "invoice_create st new_id cid amt status date = Inr st'"
  shows "\<exists>a. to_int amt = Some a \<and>
           invoices st' = invoices st @
             [\<lparr>inv_id = new_id, inv_customer_id = cid, inv_amount = a,
               inv_status = status, inv_date = date\<rparr>]"
  using assms by (auto simp: invoice_create_def split: option.splits if_splits)

lemma createInvoice_outcome:
  "snd (createInvoice env prev fd w) = w \<or>
   (\<exists>row. invoices (db (snd (createInvoice env prev fd w))) = invoices (db w) @ [row] \<and>
      inv_id row = generated_id env \<and>
      inv_date row = split_T_first (now_iso env))"
proof (cases "safeParse (formData_get fd ''customer_id'') (formData_get fd ''amount'')
                (formData_get fd ''status'')")
  case (Inl fe)
  then show ?thesis by (simp add: createInvoice_def)
next
  case (Inr d)
  show ?thesis
  proof (cases "invoice_create (db w) (generated_id env) (data_customer_id d)
                  (js_mul (data_amount d) (js_of_int 100)) (data_status d)
                  (split_T_first (now_iso env))")
    case (Inl e)
    with Inr show ?thesis by (simp add: createInvoice_def Let_def)
  next
    case created: (Inr st')
    from invoice_create_Inr [OF created] obtain a where
      "invoices st' = invoices (db w) @
         [\<lparr>inv_id = generated_id env, inv_customer_id = data_customer_id d, inv_amount = a,
           inv_status = data_status d, inv_date = split_T_first (now_iso env)\<rparr>]"
      by blast
    with Inr created show ?thesis
      by (simp add: createInvoice_def Let_def revalidatePath_def)
  qed
qed

text \<open>
  Claim C10.  Two forms that agree on every name other than \<^verbatim>\<open>id\<close> and \<^verbatim>\<open>date\<close> give
  \<^verbatim>\<open>createInvoice\<close> the same outcome and the same store.  Either nothing is written, or
  exactly one row is added, under the id the store generates and with the calendar date of
  the server's clock.
\<close>

theorem createInvoice_ignores_id_and_date:
  assumes "\<forall>name. name \<noteq> ''id'' \<and> name \<noteq> ''date'' \<longrightarrow>
             formData_get fd1 name = formData_get fd2 name"
  shows "createInvoice env prev fd1 w = createInvoice env prev fd2 w \<and>
         (snd (createInvoice env prev fd1 w) = w \<or>
          (\<exists>row. invoices (db (snd (createInvoice env prev fd1 w))) = invoices (db w) @ [row] \<and>
             inv_id row = generated_id env \<and>
             inv_date row = split_T_first (now_iso env)))"
proof -
  have "formData_get fd1 ''customer_id'' = formData_get fd2 ''customer_id''"
    and "formData_get fd1 ''amount'' = formData_get fd2 ''amount''"
    and "formData_get fd1 ''status'' = formData_get fd2 ''status''"
    using assms by simp_all
  then have "createInvoice env prev fd1 w = createInvoice env prev fd2 w"
    by (rule createInvoice_reads_three_fields)
  then show ?thesis using createInvoice_outcome [of env prev fd1 w] by (rule conjI)
qed

theorem createInvoice_ignores_id_and_date_witness:
  "createInvoice sample_environment \<lparr>errors = None, message = None\<rparr>
     [(''customer_id'', ''c1''), (''amount'', ''25''), (''status'', ''paid''),
      (''id'', ''i1''), (''date'', ''1999-01-01'')] sample_world
   = createInvoice sample_environment \<lparr>errors = None, message = None\<rparr>
     [(''date'', ''2030-12-31''), (''customer_id'', ''c1''), (''amount'', ''25''),
      (''status'', ''paid'')] sample_world \<and>
   fst (createInvoice sample_environment \<lparr>errors = None, message = None\<rparr>
     [(''customer_id'', ''c1''), (''amount'', ''25''), (''status'', ''paid''),
      (''id'', ''i1''), (''date'', ''1999-01-01'')] sample_world)
   = Redirected ''/dashboard/invoices'' \<and>
   map (\<lambda>r. (inv_id r, inv_amount r, inv_date r))
     (drop 7 (invoices (db (snd (createInvoice sample_environment
        \<lparr>errors = None, message = None\<rparr>
        [(''customer_id'', ''c1''), (''amount'', ''25''), (''status'', ''paid''),
         (''id'', ''i1''), (''date'', ''1999-01-01'')] sample_world)))))
   = [(''i8'', 2500, ''2024-05-01'')]"
proof -
  have agree: "\<forall>name. name \<noteq> ''id'' \<and> name \<noteq> ''date'' \<longrightarrow>
      formData_get [(''customer_id'', ''c1''), (''amount'', ''25''), (''status'', ''paid''),
        (''id'', ''i1''), (''date'', ''1999-01-01'')] name
      = formData_get [(''date'', ''2030-12-31''), (''customer_id'', ''c1''), (''amount'', ''25''),
        (''status'', ''paid'')] name"
    by (simp add: formData_get_def)
  have redirected: "fst (createInvoice sample_environment \<lparr>errors = None, message = None\<rparr>
     [(''customer_id'', ''c1''), (''amount'', ''25''), (''status'', ''paid''),
      (''id'', ''i1''), (''date'', ''1999-01-01'')] sample_world)
   = Redirected ''/dashboard/invoices''"
    by code_simp
  have row: "map (\<lambda>r. (inv_id r, inv_amount r, inv_date r))
     (drop 7 (invoices (db (snd (createInvoice sample_environment
        \<lparr>errors = None, message = None\<rparr>
        [(''customer_id'', ''c1''), (''amount'', ''25''), (''status'', ''paid''),
         (''id'', ''i1''), (''date'', ''1999-01-01'')] sample_world)))))
   = [(''i8'', 2500, ''2024-05-01'')]"
    by code_simp
  from conjunct1 [OF createInvoice_ignores_id_and_date [OF agree]] redirected row
  show ?thesis by (intro conjI)
qed


lemma safeParse_invalid:
  assumes "js_le (Number_of_value a) (Fin 0 0) \<or> s \<notin> {Some ''pending'', Some ''paid''}"
  shows "\<exists>fe. safeParse c a s = Inl fe \<and>
           (js_le (Number_of_value a) (Fin 0 0) \<longrightarrow>
              amount_errors fe = [Custom ''Please enter an amount greater than $0.'']) \<and>
           (s = None \<longrightarrow> status_errors fe = [Custom ''Please select an invoice status.'']) \<and>
           (\<forall>v. s = Some v \<and> v \<noteq> ''pending'' \<and> v \<noteq> ''paid'' \<longrightarrow>
              status_errors fe = [Default invalid_enum_value])"
  using assms
  by (auto simp: safeParse_def parse_customer_id_def parse_amount_def parse_status_def Let_def
      issues_of_def js_le_def isNaN_def split: option.splits sum.splits if_splits)

text \<open>
  Claim C4 gives every status other than \<^verbatim>\<open>pending\<close> and \<^verbatim>\<open>paid\<close> the message
  \<^verbatim>\<open>Please select an invoice status.\<close>  The status \<^verbatim>\<open>overdue\<close> is rejected, but as an
  invalid enum value, which carries the validation library's own message: the schema
  gives its message to type errors only.
\<close>

theorem status_message_counterexample:
  "formData_get [(''customer_id'', ''c1''), (''amount'', ''5''), (''status'', ''overdue'')]
     ''status'' \<notin> {Some ''pending'', Some ''paid''} \<and>
   createInvoice sample_environment \<lparr>errors = None, message = None\<rparr>
     [(''customer_id'', ''c1''), (''amount'', ''5''), (''status'', ''overdue'')] sample_world
   = (Returned \<lparr>errors = Some \<lparr>customer_id_errors = [], amount_errors = [],
                                   status_errors = [Default invalid_enum_value]\<rparr>,
                 message = Some ''Missing Fields. Failed to Create Invoice.''\<rparr>, sample_world) \<and>
   Default invalid_enum_value \<noteq> Custom ''Please select an invoice status.''"
  by code_simp

text \<open>
  Claim C4, amended.  A form whose amount is at most \<open>0\<close>, or whose status is not exactly
  \<^verbatim>\<open>pending\<close> or \<^verbatim>\<open>paid\<close>, makes \<^verbatim>\<open>createInvoice\<close> and \<^verbatim>\<open>updateInvoice\<close> return the
  validation result and leave the store and the revalidated paths as they were.  The amount
  field carries \<^verbatim>\<open>Please enter an amount greater than $0.\<close> when the amount is at most
  \<open>0\<close>; the status field carries \<^verbatim>\<open>Please select an invoice status.\<close> when the form has
  no status, and the library's message for an invalid enum value when the status is
  another string.
\<close>

theorem invalid_input_rejected:
  assumes "js_le (Number_of_value (formData_get fd ''amount'')) (Fin 0 0) \<or>
           formData_get fd ''status'' \<notin> {Some ''pending'', Some ''paid''}"
  shows "\<exists>fe.
           createInvoice env prev fd w =
             (Returned \<lparr>errors = Some fe,
                        message = Some ''Missing Fields. Failed to Create Invoice.''\<rparr>, w) \<and>
           updateInvoice i prev fd w =
             (Returned \<lparr>errors = Some fe,
                        message = Some ''Missing Fields. Failed to Update Invoice.''\<rparr>, w) \<and>
           (js_le (Number_of_value (formData_get fd ''amount'')) (Fin 0 0) \<longrightarrow>
              amount_errors fe = [Custom ''Please enter an amount greater than $0.'']) \<and>
           (formData_get fd ''status'' = None \<longrightarrow>
              status_errors fe = [Custom ''Please select an invoice status.'']) \<and>
           (\<forall>v. formData_get fd ''status'' = Some v \<and> v \<noteq> ''pending'' \<and> v \<noteq> ''paid'' \<longrightarrow>
              status_errors fe = [Default invalid_enum_value])"
proof -
  from safeParse_invalid [OF assms, of "formData_get fd ''customer_id''"] obtain fe where
    failed: "safeParse (formData_get fd ''customer_id'') (formData_get fd ''amount'')
               (formData_get fd ''status'') = Inl fe" and
    amount: "js_le (Number_of_value (formData_get fd ''amount'')) (Fin 0 0) \<longrightarrow>
               amount_errors fe = [Custom ''Please enter an amount greater than $0.'']" and
    absent: "formData_get fd ''status'' = None \<longrightarrow>
               status_errors fe = [Custom ''Please select an invoice status.'']" and
    other: "\<forall>v. formData_get fd ''status'' = Some v \<and> v \<noteq> ''pending'' \<and> v \<noteq> ''paid'' \<longrightarrow>
               status_errors fe = [Default invalid_enum_value]"
    by (elim exE conjE)
  have "createInvoice env prev fd w =
          (Returned \<lparr>errors = Some fe,
                     message = Some ''Missing Fields. Failed to Create Invoice.''\<rparr>, w)"
    by (simp add: createInvoice_def failed)
  moreover have "updateInvoice i prev fd w =
          (Returned \<lparr>errors = Some fe,
                     message = Some ''Missing Fields. Failed to Update Invoice.''\<rparr>, w)"
    by (simp add: updateInvoice_def failed)
  ultimately show ?thesis using amount absent other by (intro exI conjI)
qed

theorem invalid_input_rejected_witness:
  "js_le (Number_of_value (formData_get
      [(''customer_id'', ''c1''), (''amount'', ''-5''), (''status'', ''paid'')] ''amount''))
      (Fin 0 0) \<and>
   (\<exists>fe. createInvoice sample_environment \<lparr>errors = None, message = None\<rparr>
        [(''customer_id'', ''c1''), (''amount'', ''-5''), (''status'', ''paid'')] sample_world
      = (Returned \<lparr>errors = Some fe,
                    message = Some ''Missing Fields. Failed to Create Invoice.''\<rparr>, sample_world) \<and>
      updateInvoice ''i3'' \<lparr>errors = None, message = None\<rparr>
        [(''customer_id'', ''c1''), (''amount'', ''-5''), (''status'', ''paid'')] sample_world
      = (Returned \<lparr>errors = Some fe,
                    message = Some ''Missing Fields. Failed to Update Invoice.''\<rparr>, sample_world) \<and>
      amount_errors fe = [Custom ''Please enter an amount greater than $0.'']) \<and>
   formData_get [(''customer_id'', ''c1''), (''amount'', ''5'')] ''status'' = None \<and>
   (\<exists>fe. createInvoice sample_environment \<lparr>errors = None, message = None\<rparr>
        [(''customer_id'', ''c1''), (''amount'', ''5'')] sample_world
      = (Returned \<lparr>errors = Some fe,
                    message = Some ''Missing Fields. Failed to Create Invoice.''\<rparr>, sample_world) \<and>
      status_errors fe = [Custom ''Please select an invoice status.''])"
proof -
  let ?neg = "[(''customer_id'', ''c1''), (''amount'', ''-5''), (''status'', ''paid'')]"
  let ?nostatus = "[(''customer_id'', ''c1''), (''amount'', ''5'')]"
  let ?prev = "\<lparr>errors = None, message = None\<rparr>"
  have neg: "js_le (Number_of_value (formData_get ?neg ''amount'')) (Fin 0 0)"
    by code_simp
  have none: "formData_get ?nostatus ''status'' = None"
    by code_simp
  then have nostatus: "formData_get ?nostatus ''status'' \<notin> {Some ''pending'', Some ''paid''}"
    by simp
  from invalid_input_rejected [OF disjI1 [OF neg], of sample_environment ?prev sample_world "''i3''"]
  obtain fe where
    "createInvoice sample_environment ?prev ?neg sample_world
      = (Returned \<lparr>errors = Some fe,
                    message = Some ''Missing Fields. Failed to Create Invoice.''\<rparr>, sample_world)"
    "updateInvoice ''i3'' ?prev ?neg sample_world
      = (Returned \<lparr>errors = Some fe,
                    message = Some ''Missing Fields. Failed to Update Invoice.''\<rparr>, sample_world)"
    "js_le (Number_of_value (formData_get ?neg ''amount'')) (Fin 0 0) \<longrightarrow>
       amount_errors fe = [Custom ''Please enter an amount greater than $0.'']"
    by (elim exE conjE)
  with neg have first: "\<exists>fe. createInvoice sample_environment ?prev ?neg sample_world
      = (Returned \<lparr>errors = Some fe,
                    message = Some ''Missing Fields. Failed to Create Invoice.''\<rparr>, sample_world) \<and>
      updateInvoice ''i3'' ?prev ?neg sample_world
      = (Returned \<lparr>errors = Some fe,
                    message = Some ''Missing Fields. Failed to Update Invoice.''\<rparr>, sample_world) \<and>
      amount_errors fe = [Custom ''Please enter an amount greater than $0.'']"
    by (intro exI conjI) (assumption, assumption, rule mp)
  from invalid_input_rejected [OF disjI2 [OF nostatus], of sample_environment ?prev sample_world "''i3''"]
  obtain fe' where
    "createInvoice sample_environment ?prev ?nostatus sample_world
      = (Returned \<lparr>errors = Some fe',
                    message = Some ''Missing Fields. Failed to Create Invoice.''\<rparr>, sample_world)"
    "formData_get ?nostatus ''status'' = None \<longrightarrow>
       status_errors fe' = [Custom ''Please select an invoice status.'']"
    by (elim exE conjE)
  with none have second: "\<exists>fe. createInvoice sample_environment ?prev ?nostatus sample_world
      = (Returned \<lparr>errors = Some fe,
                    message = Some ''Missing Fields. Failed to Create Invoice.''\<rparr>, sample_world) \<and>
      status_errors fe = [Custom ''Please select an invoice status.'']"
    by (intro exI conjI) (assumption, rule mp)
  from neg first none second show ?thesis by (intro conjI)
qed


end
